theory Spec2Isabelle
  imports Main "HOL-Library.Word"
begin

section \<open>The header \<^verbatim>\<open>Sources/CWinPrivate/include/nt.h\<close>\<close>

text \<open>
  The C sources of the repository are one header. Between its include guard it defines
  \<^verbatim>\<open>WIN32_LEAN_AND_MEAN\<close>, includes two platform headers and declares one function:
  \<^verbatim>\<open>
  NTSYSAPI NTSTATUS NTAPI NtDelayExecution(IN BOOLEAN Alertable,
                                           IN PLARGE_INTEGER DelayInterval);
  \<close>
  The header holds no function body: the function is imported from the operating system.
  The header is modelled as the list of its lines, the prototype as a record of its parts.
\<close>

subsection \<open>Types, annotations and the prototype\<close>

text \<open>The three type names the prototype uses.\<close>

datatype ctype = BOOLEAN | NTSTATUS | PLARGE_INTEGER

text \<open>
  The direction annotations of the platform headers. The prototype uses \<^verbatim>\<open>IN\<close> on both
  parameters; \<^verbatim>\<open>OUT\<close> is the other annotation of that vocabulary.
\<close>

datatype annotation = IN | OUT

record parameter =
  p_annotation :: annotation
  p_type :: ctype
  p_name :: string

record prototype =
  f_linkage :: string
  f_result :: ctype
  f_convention :: string
  f_symbol :: string
  f_parameters :: "parameter list"

definition NtDelayExecution :: prototype where
  "NtDelayExecution =
     \<lparr>f_linkage = ''NTSYSAPI'',
      f_result = NTSTATUS,
      f_convention = ''NTAPI'',
      f_symbol = ''NtDelayExecution'',
      f_parameters =
        [\<lparr>p_annotation = IN, p_type = BOOLEAN, p_name = ''Alertable''\<rparr>,
         \<lparr>p_annotation = IN, p_type = PLARGE_INTEGER, p_name = ''DelayInterval''\<rparr>]\<rparr>"

datatype line =
    IfNDef string
  | Define string
  | Include string
  | Declare prototype
  | EndIf

definition nt_h :: "line list" where
  "nt_h =
     [IfNDef ''__CWINPRIVATE_NT_H'',
      Define ''__CWINPRIVATE_NT_H'',
      Define ''WIN32_LEAN_AND_MEAN'',
      Include ''windows.h'',
      Include ''wincred.h'',
      Declare NtDelayExecution,
      EndIf]"

text \<open>The functions a header declares, in order.\<close>

fun declarations :: "line list \<Rightarrow> prototype list" where
  "declarations [] = []"
| "declarations (Declare d # ls) = d # declarations ls"
| "declarations (_ # ls) = declarations ls"

subsection \<open>What the type names stand for\<close>

text \<open>
  Modelled from the spec: the typedefs \<^verbatim>\<open>BOOLEAN\<close>, \<^verbatim>\<open>NTSTATUS\<close> and \<^verbatim>\<open>PLARGE_INTEGER\<close> come
  from the platform headers the file includes, which are not part of the repository. The
  spec gives them as a boolean, a native status code and a pointer to a signed 64-bit
  integer.
\<close>

datatype shape = Boolean | StatusCode | SignedInt nat | PointerTo shape

fun shape_of :: "ctype \<Rightarrow> shape" where
  "shape_of BOOLEAN = Boolean"
| "shape_of NTSTATUS = StatusCode"
| "shape_of PLARGE_INTEGER = PointerTo (SignedInt 64)"

text \<open>
  A status code is a 32-bit value and the interval a 64-bit value, both read as two's
  complement (\<open>sint\<close>). A pointer is an address of type \<open>'p\<close>, a word of the target's
  pointer width.
\<close>

type_synonym ntstatus = "32 word"
type_synonym large_integer = "64 word"

datatype 'p val = VBool bool | VStatus ntstatus | VPtr shape 'p

fun val_shape :: "'p val \<Rightarrow> shape" where
  "val_shape (VBool _) = Boolean"
| "val_shape (VStatus _) = StatusCode"
| "val_shape (VPtr sh _) = PointerTo sh"

subsection \<open>Calling through the prototype\<close>

text \<open>
  The caller's memory holds 64-bit intervals at some addresses. The machine state also
  keeps a journal of the calls that crossed into the operating system, each with the
  arguments passed and the value returned.
\<close>

type_synonym 'p memory = "'p \<rightharpoonup> large_integer"

record 'p machine =
  memory :: "'p memory"
  crossings :: "('p val list \<times> 'p val) list"

text \<open>
  The entry point itself lives in the operating system and is a parameter: given the
  arguments and the machine state, it returns a value and the memory it leaves behind.
\<close>

type_synonym 'p entry = "'p val list \<Rightarrow> 'p machine \<Rightarrow> 'p val \<times> 'p memory"

datatype error = ArgumentMismatch | ResultMismatch

definition args_match :: "parameter list \<Rightarrow> 'p val list \<Rightarrow> bool" where
  "args_match ps args = (map (shape_of \<circ> p_type) ps = map val_shape args)"

text \<open>
  A call through a prototype: the compiler admits the call only when the arguments have
  the declared types, the imported function then runs once, and its return value, of the
  declared result type, goes back to the caller as it is. The header adds no code of its
  own around the call.
\<close>

definition invoke ::
  "prototype \<Rightarrow> 'p entry \<Rightarrow> 'p val list \<Rightarrow> 'p machine \<Rightarrow> error + ('p val \<times> 'p machine)" where
  "invoke d entry args s =
     (if \<not> args_match (f_parameters d) args then Inl ArgumentMismatch
      else case entry args s of
        (r, m) \<Rightarrow>
          if val_shape r = shape_of (f_result d)
          then Inr (r, s\<lparr>memory := m, crossings := crossings s @ [(args, r)]\<rparr>)
          else Inl ResultMismatch)"

section \<open>The caller-facing delay operation\<close>

text \<open>
  Modelled from the spec: the outcome of the caller-facing delay operation, which is not
  among the repository's C sources. The spec maps the native status to success, to an
  invalid parameter or to an unsupported entry point, and carries any other failure to
  the caller with the native status value in it.
\<close>

datatype outcome = Success | InvalidParameter | Unsupported | NativeFailure ntstatus

text \<open>
  Modelled from the spec: which status values count as success and which one reports an
  invalid parameter is fixed by the platform headers, which are not part of the repository;
  the spec names the two classes and no values. Both are parameters.
\<close>

record classification =
  success :: "ntstatus \<Rightarrow> bool"
  invalid_parameter :: "ntstatus \<Rightarrow> bool"

text \<open>
  Modelled from the spec: the translation of a native status. A success status is
  \<open>Success\<close>, the invalid-parameter status is \<open>InvalidParameter\<close>, and any other status is
  passed on as it is.
\<close>

definition translate :: "classification \<Rightarrow> ntstatus \<Rightarrow> outcome" where
  "translate c st =
     (if success c st then Success
      else if invalid_parameter c st then InvalidParameter
      else NativeFailure st)"

text \<open>
  Modelled from the spec: the operation \<^verbatim>\<open>delay(duration, alertable) -> Result\<close> of the spec,
  with the duration a signed 64-bit integer in 100-nanosecond units. The caller-facing
  function is not among the repository's C sources; only the prototype it calls is.
  \<^item> The process-wide flag \<open>resolved\<close> records whether the native entry point was found;
    every call reads it, and a call on an unresolved entry point is \<open>Unsupported\<close> and
    does not reach the operating system.
  \<^item> Otherwise the duration is put in the cell at \<open>p\<close>, since the prototype takes a
    pointer, and \<^verbatim>\<open>NtDelayExecution\<close> is called through the prototype, once.
  \<^item> The status that comes back is translated. There is no second call.
  The conversion from nanoseconds that the spec mentions for the public surface is left
  out: the spec gives it no definite form.
\<close>

definition delay ::
  "classification \<Rightarrow> bool \<Rightarrow> 'p entry \<Rightarrow> 'p \<Rightarrow> large_integer \<Rightarrow> bool \<Rightarrow> 'p machine
     \<Rightarrow> error + (outcome \<times> 'p machine)" where
  "delay c resolved entry p duration alertable s =
     (if \<not> resolved then Inr (Unsupported, s)
      else case invoke NtDelayExecution entry [VBool alertable, VPtr (SignedInt 64) p]
                  (s\<lparr>memory := (memory s)(p \<mapsto> duration)\<rparr>) of
        Inl e \<Rightarrow> Inl e
      | Inr (r, s') \<Rightarrow>
          (case r of
             VStatus st \<Rightarrow> Inr (translate c st, s')
           | _ \<Rightarrow> Inl ResultMismatch))"


section \<open>Properties of the binding and of the delay operation\<close>

lemma args_match_NtDelayExecution:
  "args_match (f_parameters NtDelayExecution) args \<longleftrightarrow>
     (\<exists>a p. args = [VBool a, VPtr (SignedInt 64) p])"
proof
  assume m: "args_match (f_parameters NtDelayExecution) args"
  then obtain x y where xy: "args = [x, y]"
    by (auto simp: args_match_def NtDelayExecution_def map_eq_Cons_conv)
  with m have "val_shape x = Boolean" and "val_shape y = PointerTo (SignedInt 64)"
    by (simp_all add: args_match_def NtDelayExecution_def)
  then obtain a p where "x = VBool a" and "y = VPtr (SignedInt 64) p"
    by (cases x; cases y) auto
  with xy show "\<exists>a p. args = [VBool a, VPtr (SignedInt 64) p]" by blast
next
  assume "\<exists>a p. args = [VBool a, VPtr (SignedInt 64) p]"
  then show "args_match (f_parameters NtDelayExecution) args"
    by (auto simp: args_match_def NtDelayExecution_def)
qed

lemma status_shape: "val_shape r = StatusCode \<longleftrightarrow> (\<exists>st. r = VStatus st)"
  by (cases r) auto

text \<open>
  C1. The header declares exactly one function, \<^verbatim>\<open>NtDelayExecution\<close>, imported by its symbol
  name. Its two parameters are a boolean, \<^verbatim>\<open>Alertable\<close>, and a pointer to a signed 64-bit
  integer, \<^verbatim>\<open>DelayInterval\<close>; its result is a status code. Every call that goes through the
  prototype has exactly these arguments and returns a status code.
\<close>

theorem NtDelayExecution_sole_boundary:
  "declarations nt_h = [NtDelayExecution] \<and>
   f_symbol NtDelayExecution = ''NtDelayExecution'' \<and>
   f_linkage NtDelayExecution = ''NTSYSAPI'' \<and>
   map p_name (f_parameters NtDelayExecution) = [''Alertable'', ''DelayInterval''] \<and>
   map (shape_of \<circ> p_type) (f_parameters NtDelayExecution) = [Boolean, PointerTo (SignedInt 64)] \<and>
   shape_of (f_result NtDelayExecution) = StatusCode \<and>
   (\<forall>entry args s r s'.
      invoke NtDelayExecution entry args s = Inr (r, s') \<longrightarrow>
      (\<exists>a p st. args = [VBool a, VPtr (SignedInt 64) p] \<and> r = VStatus st))"
proof -
  have decl: "declarations nt_h = [NtDelayExecution]"
    by (simp add: nt_h_def)
  have call: "\<exists>a p st. args = [VBool a, VPtr (SignedInt 64) p] \<and> r = VStatus st"
    if ok: "invoke NtDelayExecution entry args s = Inr (r, s')"
    for entry :: "'a entry" and args s r s'
  proof -
    from ok have m: "args_match (f_parameters NtDelayExecution) args"
      by (auto simp: invoke_def split: if_splits)
    from ok m have "val_shape r = shape_of (f_result NtDelayExecution)"
      by (auto simp: invoke_def split: if_splits prod.splits)
    then have "val_shape r = StatusCode"
      by (simp add: NtDelayExecution_def)
    with m show ?thesis
      by (auto simp: args_match_NtDelayExecution status_shape)
  qed
  from decl call show ?thesis
    by (simp add: NtDelayExecution_def)
qed

theorem NtDelayExecution_sole_boundary_witness:
  "declarations nt_h = [NtDelayExecution] \<and>
   invoke NtDelayExecution (\<lambda>args s. (VStatus 0, memory s))
     [VBool False, VPtr (SignedInt 64) (4096 :: 64 word)]
     \<lparr>memory = [4096 \<mapsto> - 20000], crossings = []\<rparr>
   = Inr (VStatus 0,
       \<lparr>memory = [4096 \<mapsto> - 20000],
        crossings = [([VBool False, VPtr (SignedInt 64) 4096], VStatus 0)]\<rparr>) \<and>
   (\<exists>a p st. [VBool False, VPtr (SignedInt 64) (4096 :: 64 word)] = [VBool a, VPtr (SignedInt 64) p] \<and>
      (VStatus 0 :: 64 word val) = VStatus st)"
proof -
  have run: "invoke NtDelayExecution (\<lambda>args s. (VStatus 0, memory s))
     [VBool False, VPtr (SignedInt 64) (4096 :: 64 word)]
     \<lparr>memory = [4096 \<mapsto> - 20000], crossings = []\<rparr>
   = Inr (VStatus 0,
       \<lparr>memory = [4096 \<mapsto> - 20000],
        crossings = [([VBool False, VPtr (SignedInt 64) 4096], VStatus 0)]\<rparr>)"
    by (simp add: invoke_def args_match_def NtDelayExecution_def)
  from NtDelayExecution_sole_boundary [where 'a = "64 word"] run show ?thesis
    by blast
qed



text \<open>
  C6. When the native entry point is resolved and the operating system answers a delay
  request with a status that is neither a success nor the invalid-parameter status, the
  caller of \<open>delay\<close> receives a failure that carries exactly that status, and the journal
  kept by the binding has one new entry: the request crossed into the operating system
  once. For every call of \<open>delay\<close> that returns, the journal grows by at most one entry, so
  nothing is retried, and the outcome is \<open>Success\<close> only when the status the operating
  system returned was a success, so no failure is swallowed.
\<close>

theorem delay_propagates_native_failure:
  "(resolved \<and>
    entry [VBool alertable, VPtr (SignedInt 64) p] (s\<lparr>memory := (memory s)(p \<mapsto> duration)\<rparr>)
      = (VStatus st, m) \<and>
    \<not> success c st \<and> \<not> invalid_parameter c st \<longrightarrow>
    delay c resolved entry p duration alertable s =
      Inr (NativeFailure st,
        s\<lparr>memory := m,
          crossings := crossings s @ [([VBool alertable, VPtr (SignedInt 64) p], VStatus st)]\<rparr>)) \<and>
   (\<forall>r s'. delay c resolved entry p duration alertable s = Inr (r, s') \<longrightarrow>
      length (crossings s') \<le> Suc (length (crossings s)) \<and>
      (r = Success \<longrightarrow>
         (\<exists>st'. success c st' \<and>
            fst (entry [VBool alertable, VPtr (SignedInt 64) p]
                   (s\<lparr>memory := (memory s)(p \<mapsto> duration)\<rparr>)) = VStatus st')))"
proof (intro conjI impI allI)
  assume "resolved \<and>
    entry [VBool alertable, VPtr (SignedInt 64) p] (s\<lparr>memory := (memory s)(p \<mapsto> duration)\<rparr>)
      = (VStatus st, m) \<and>
    \<not> success c st \<and> \<not> invalid_parameter c st"
  then show "delay c resolved entry p duration alertable s =
      Inr (NativeFailure st,
        s\<lparr>memory := m,
          crossings := crossings s @ [([VBool alertable, VPtr (SignedInt 64) p], VStatus st)]\<rparr>)"
    by (simp add: delay_def translate_def invoke_def args_match_def NtDelayExecution_def)
next
  fix r s'
  assume "delay c resolved entry p duration alertable s = Inr (r, s')"
  then show "length (crossings s') \<le> Suc (length (crossings s))"
    by (auto simp: delay_def invoke_def split: if_splits prod.splits val.splits)
next
  fix r s'
  assume run: "delay c resolved entry p duration alertable s = Inr (r, s')"
    and ok: "r = Success"
  let ?e = "entry [VBool alertable, VPtr (SignedInt 64) p] (s\<lparr>memory := (memory s)(p \<mapsto> duration)\<rparr>)"
  from run ok obtain st' where ret: "fst ?e = VStatus st'" and tr: "translate c st' = Success"
    by (auto simp: delay_def invoke_def split: if_splits prod.splits val.splits)
  from tr have "success c st'"
    by (auto simp: translate_def split: if_splits)
  with ret show "\<exists>st'. success c st' \<and> fst ?e = VStatus st'"
    by blast
qed

theorem delay_propagates_native_failure_witness:
  "delay \<lparr>success = (\<lambda>st. 0 \<le> sint st), invalid_parameter = (\<lambda>st. st = 0xC000000D)\<rparr>
     True (\<lambda>args s. (VStatus 0xC0000005, memory s)) (4096 :: 64 word) (- 20000) False
     \<lparr>memory = Map.empty, crossings = []\<rparr>
   = Inr (NativeFailure 0xC0000005,
       \<lparr>memory = [4096 \<mapsto> - 20000],
        crossings = [([VBool False, VPtr (SignedInt 64) 4096], VStatus 0xC0000005)]\<rparr>) \<and>
   length (crossings
       \<lparr>memory = [(4096 :: 64 word) \<mapsto> - 20000],
        crossings = [([VBool False, VPtr (SignedInt 64) 4096], VStatus 0xC0000005)]\<rparr>)
     \<le> Suc (length (crossings \<lparr>memory = (Map.empty :: 64 word memory), crossings = []\<rparr>))"
proof -
  let ?c = "\<lparr>success = (\<lambda>st. 0 \<le> sint st), invalid_parameter = (\<lambda>st. st = 0xC000000D)\<rparr>"
  let ?entry = "\<lambda>(args :: 64 word val list) (s :: 64 word machine). (VStatus 0xC0000005 :: 64 word val, memory s)"
  let ?s = "\<lparr>memory = (Map.empty :: 64 word memory), crossings = []\<rparr>"
  have neg: "\<not> 0 \<le> sint (0xC0000005 :: 32 word)"
    by simp
  have other: "(0xC0000005 :: 32 word) \<noteq> 0xC000000D"
    by simp
  note inst = delay_propagates_native_failure
    [of True ?entry False "4096 :: 64 word" ?s "- 20000" "0xC0000005" "[4096 \<mapsto> - 20000]" ?c]
  from inst [THEN conjunct1] neg other
  have run: "delay ?c True ?entry 4096 (- 20000) False ?s
    = Inr (NativeFailure 0xC0000005,
       \<lparr>memory = [4096 \<mapsto> - 20000],
        crossings = [([VBool False, VPtr (SignedInt 64) 4096], VStatus 0xC0000005)]\<rparr>)"
    by simp
  from inst [THEN conjunct2] run
  have "length (crossings
       \<lparr>memory = [(4096 :: 64 word) \<mapsto> - 20000],
        crossings = [([VBool False, VPtr (SignedInt 64) 4096], VStatus 0xC0000005)]\<rparr>)
     \<le> Suc (length (crossings ?s))"
    by blast
  with run show ?thesis by simp
qed

text \<open>
  C10. The call is admitted for every pointer value, and the pointer reaches the entry
  point as the caller gave it: nothing at this boundary looks at the pointer or at the
  memory behind it. A null pointer, a misaligned pointer and a pointer to no integer at
  all are passed on like any other; that the pointer is valid is left to the caller.
\<close>

theorem DelayInterval_pointer_unchecked:
  "args_match (f_parameters NtDelayExecution) [VBool a, VPtr (SignedInt 64) p] \<and>
   invoke NtDelayExecution entry [VBool a, VPtr (SignedInt 64) p] s =
     (case entry [VBool a, VPtr (SignedInt 64) p] s of
        (r, m) \<Rightarrow>
          if val_shape r = StatusCode
          then Inr (r, s\<lparr>memory := m,
                 crossings := crossings s @ [([VBool a, VPtr (SignedInt 64) p], r)]\<rparr>)
          else Inl ResultMismatch)"
  by (simp add: invoke_def args_match_def NtDelayExecution_def)

theorem DelayInterval_pointer_unchecked_witness:
  "invoke NtDelayExecution
     (\<lambda>args s. (case args of
         [_, VPtr _ q] \<Rightarrow> (if memory s q = None then VStatus 0xC0000005 else VStatus 0)
       | _ \<Rightarrow> VStatus 0xC000000D, memory s))
     [VBool False, VPtr (SignedInt 64) (0 :: 64 word)]
     \<lparr>memory = Map.empty, crossings = []\<rparr>
   = Inr (VStatus 0xC0000005,
       \<lparr>memory = Map.empty,
        crossings = [([VBool False, VPtr (SignedInt 64) 0], VStatus 0xC0000005)]\<rparr>)"
  using DelayInterval_pointer_unchecked
    [of False "0 :: 64 word"
        "\<lambda>args s. (case args of
           [_, VPtr _ q] \<Rightarrow> (if memory s q = None then VStatus 0xC0000005 else VStatus 0)
         | _ \<Rightarrow> VStatus 0xC000000D, memory s)"
        "\<lparr>memory = Map.empty, crossings = []\<rparr>"]
  by simp

end
